theory Spec2Isabelle
  imports Complex_Main
begin

section \<open>Data model of the Go engine\<close>

text \<open>
  The enums of the game (\<^verbatim>\<open>GoColor\<close>, \<^verbatim>\<open>GoValidity\<close>, \<^verbatim>\<open>GoOpponent\<close>) are imported by the
  sources from \<^verbatim>\<open>@enums\<close>; their members are the ones the sources and the specification
  name. Of \<^verbatim>\<open>GoOpponent\<close> the sources single out \<^verbatim>\<open>none\<close> and \<^verbatim>\<open>w0r1d_d43m0n\<close>; every
  other opponent is a faction, kept by its name.
\<close>

datatype GoColor = white | black | empty

datatype GoValidity =
  valid | outOfBounds | pointNotEmpty | noSuicide | boardRepeated | notYourTurn | gameOver

datatype GoOpponent = none | w0r1d_d43m0n | faction string

text \<open>
  A point of the board, as \<^verbatim>\<open>cheatRepairOfflineNode\<close> builds one:
  \<^verbatim>\<open>{ chain, liberties, y, color, x }\<close>. An offline node is \<^verbatim>\<open>null\<close> in the board, here
  \<open>None\<close>. The board is an array of columns, \<^verbatim>\<open>board[x][y]\<close>.
\<close>

record PointState =
  color :: GoColor
  chain :: string
  liberties :: "(int \<times> int) list option"
  point_x :: int
  point_y :: int

type_synonym Board = "PointState option list list"

text \<open>
  The game state (\<^verbatim>\<open>BoardState\<close>): \<^verbatim>\<open>previousPlayer\<close> is a colour or \<^verbatim>\<open>null\<close> (game over),
  \<^verbatim>\<open>previousBoards\<close> the history of board snapshots. The two counters are JavaScript
  numbers that only ever hold small natural numbers.
\<close>

record BoardState =
  board :: Board
  previousPlayer :: "GoColor option"
  previousBoards :: "string list"
  ai :: GoOpponent
  passCount :: nat
  cheatCount :: nat

text \<open>
  What the sources read of \<^verbatim>\<open>Player\<close>: the crime success multiplier, the level of
  Source-File 14 (\<^verbatim>\<open>Player.sourceFileLvl(14)\<close>), the current BitNode and whether the
  augmentation The Red Pill is owned (\<^verbatim>\<open>Player.hasAugmentation(TheRedPill, true)\<close>).
\<close>

record PlayerObject =
  crime_success :: real
  sourceFileLvl14 :: int
  bitNodeN :: int
  hasTheRedPill :: bool

section \<open>Cheat success chance\<close>

text \<open>
  \<^verbatim>\<open>cheatSuccessChance(cheatCount)\<close>:
  \<^verbatim>\<open>max(min(0.6 * (0.7 - 0.02 * cheatCount) ** cheatCount * crime_success + bonus, 1), 0)\<close>.
  The double arithmetic of the source is read over the reals.
\<close>

definition sourceFileBonus :: "PlayerObject \<Rightarrow> real" where
  "sourceFileBonus P = (if sourceFileLvl14 P = 3 then 0.25 else 0)"

definition cheatCountScalar :: "nat \<Rightarrow> real" where
  "cheatCountScalar n = (0.7 - 0.02 * real n) ^ n"

definition cheatSuccessChance :: "PlayerObject \<Rightarrow> nat \<Rightarrow> real" where
  "cheatSuccessChance P n =
     max (min (0.6 * cheatCountScalar n * crime_success P + sourceFileBonus P) 1) 0"

section \<open>Errors, log messages and the global state\<close>

text \<open>
  The text a move is named by in an error: \<^verbatim>\<open>`${methodName} ${x},${y}: `\<close> in
  \<^verbatim>\<open>validateMove\<close>, or the plain string a caller of \<^verbatim>\<open>validateTurn\<close> passes
  (\<^verbatim>\<open>"passTurn()"\<close>).
\<close>

datatype MoveString = moveAt string int int | methodText string

text \<open>
  Every \<^verbatim>\<open>error(...)\<close> call of the sources, by the data its message is built from. The
  \<^verbatim>\<open>error\<close> callback the scripting API passes in (\<^verbatim>\<open>NetscriptFunctions/Go.ts\<close>) throws,
  so each call ends the operation. \<open>TypeError\<close> is JavaScript's own, raised when a
  property of \<^verbatim>\<open>null\<close> or \<^verbatim>\<open>undefined\<close> is read or written.
\<close>

datatype GoError =
    InvalidColumn int int
  | InvalidRow int int
  | TurnError MoveString GoValidity
  | OfflineNode int int string
  | SuicideError MoveString GoValidity
  | RepeatError MoveString GoValidity
  | OccupiedPoint int int string
  | NoRouter int int
  | NotOffline int int
  | InvalidMove int int GoValidity
  | InvalidSize int
  | InvalidOpponent GoOpponent
  | NoCheatAccess
  | TypeError

datatype LogMessage =
    MovePlayed int int
  | NewGameStarted GoOpponent int
  | CheatEjected
  | CheatSkipped
  | RouterCleared int int
  | TwoMovesPlayed int int int int
  | NodeRepaired int int
  | NodeDestroyed int int

text \<open>
  Modelled from the spec: \<^verbatim>\<open>makeAIMove\<close> of \<^verbatim>\<open>goAI\<close>, which the sources at hand call but
  do not contain. It starts the opponent's turn, which "resolves asynchronously after an
  artificial delay"; "the board itself is not mutated by the pending opponent turn, only
  by its eventual resolution". A call \<^verbatim>\<open>makeAIMove(state)\<close> is therefore the result
  \<open>aiMove\<close>, the promise of the opponent's move, with the state as it is at the call;
  \<open>nextTurn\<close> is the promise stored in \<^verbatim>\<open>Go.nextTurn\<close>.
\<close>

datatype Pending = aiMove | nextTurn

text \<open>
  The global state the operations act on: the singleton \<^verbatim>\<open>Go.currentGame\<close>, the number
  of \<^verbatim>\<open>GoEvents.emit()\<close> notifications sent, the messages given to the \<^verbatim>\<open>logger\<close>
  callback, and the opponents \<^verbatim>\<open>resetWinstreak(ai, false)\<close> was called for (it touches
  \<^verbatim>\<open>Go.stats\<close> only).
\<close>

record World =
  currentGame :: BoardState
  emitted :: nat
  logs :: "LogMessage list"
  winstreakResets :: "GoOpponent list"

definition emit :: "World \<Rightarrow> World" where
  "emit w = w\<lparr>emitted := emitted w + 1\<rparr>"

definition logger :: "LogMessage \<Rightarrow> World \<Rightarrow> World" where
  "logger m w = w\<lparr>logs := logs w @ [m]\<rparr>"

text \<open>
  The board operations the sources import from \<^verbatim>\<open>boardState\<close> and \<^verbatim>\<open>boardAnalysis\<close> and
  whose code is not part of the sources at hand; they are parameters of the model.
  \<^verbatim>\<open>evaluateIfMoveIsValid\<close> returns a validity and, as the specification has it, works on
  a simulation of the move; \<^verbatim>\<open>updateChains\<close> and \<^verbatim>\<open>updateCaptures\<close> rewrite the board they
  are given; \<^verbatim>\<open>getNewBoardState(size, opponent, applyObstacles)\<close> builds a game state;
  \<^verbatim>\<open>simpleBoardFromBoard\<close> and \<^verbatim>\<open>boardStringFromBoard\<close> serialise a board.
\<close>

record Engine =
  evaluateIfMoveIsValid :: "BoardState \<Rightarrow> int \<Rightarrow> int \<Rightarrow> GoColor \<Rightarrow> GoValidity"
  updateChains :: "Board \<Rightarrow> Board"
  updateCaptures :: "Board \<Rightarrow> GoColor \<Rightarrow> Board"
  getNewBoardState :: "int \<Rightarrow> GoOpponent \<Rightarrow> bool \<Rightarrow> BoardState"
  simpleBoardFromBoard :: "Board \<Rightarrow> string list"
  boardStringFromBoard :: "Board \<Rightarrow> string"

subsection \<open>Reading and writing \<^verbatim>\<open>board[x][y]\<close>\<close>

text \<open>
  \<^verbatim>\<open>board[x]\<close> outside the array is \<^verbatim>\<open>undefined\<close>, and indexing that raises a
  \<open>TypeError\<close>; \<^verbatim>\<open>column[y]\<close> outside the column is \<^verbatim>\<open>undefined\<close>, which every test
  of the sources (\<^verbatim>\<open>!point\<close>, \<^verbatim>\<open>point?.color\<close>) treats as it treats \<^verbatim>\<open>null\<close>.
\<close>

definition readPoint :: "Board \<Rightarrow> int \<Rightarrow> int \<Rightarrow> GoError + PointState option" where
  "readPoint b x y =
     (if x < 0 \<or> int (length b) \<le> x then Inl TypeError
      else let column = b ! nat x in
        if y < 0 \<or> int (length column) \<le> y then Inr None
        else Inr (column ! nat y))"

text \<open>
  \<^verbatim>\<open>board[x][y] = v\<close>: a write past the end of the column extends it, the new cells in
  between are holes; a negative index sets a property and leaves the cells as they are.
\<close>

definition writePoint :: "Board \<Rightarrow> int \<Rightarrow> int \<Rightarrow> PointState option \<Rightarrow> GoError + Board" where
  "writePoint b x y v =
     (if x < 0 \<or> int (length b) \<le> x then Inl TypeError
      else let column = b ! nat x in
        if y < 0 then Inr b
        else if y < int (length column) then Inr (b[nat x := column[nat y := v]])
        else Inr (b[nat x := column @ replicate (nat y - length column) None @ [v]]))"

text \<open>
  \<^verbatim>\<open>point.color = c\<close> for the point object found at \<^verbatim>\<open>board[x][y]\<close>: the object stays
  where it is in the board, with its colour changed.
\<close>

definition setColor :: "Board \<Rightarrow> int \<Rightarrow> int \<Rightarrow> GoColor \<Rightarrow> GoError + Board" where
  "setColor b x y c =
     (case readPoint b x y of
        Inl e \<Rightarrow> Inl e
      | Inr None \<Rightarrow> Inl TypeError
      | Inr (Some p) \<Rightarrow> writePoint b x y (Some (p\<lparr>color := c\<rparr>)))"

section \<open>Validation of a turn and of a move\<close>

text \<open>\<^verbatim>\<open>validateTurn(error, moveString)\<close>.\<close>

definition validateTurn :: "BoardState \<Rightarrow> MoveString \<Rightarrow> GoError + unit" where
  "validateTurn g moveString =
     (if previousPlayer g = Some black then Inl (TurnError moveString notYourTurn)
      else if previousPlayer g = None then Inl (TurnError moveString gameOver)
      else Inr ())"

text \<open>The \<^verbatim>\<open>check\<close> object of \<^verbatim>\<open>validateMove\<close>, and its defaults.\<close>

record CheckSettings =
  emptyNode :: bool
  requireNonEmptyNode :: bool
  repeat :: bool
  onlineNode :: bool
  requireOfflineNode :: bool
  suicide :: bool

definition defaultCheck :: CheckSettings where
  "defaultCheck = \<lparr>emptyNode = True, requireNonEmptyNode = False, repeat = True,
     onlineNode = True, requireOfflineNode = False, suicide = True\<rparr>"

text \<open>
  \<^verbatim>\<open>validateMove(error, x, y, methodName, settings)\<close>: the checks in the order of the
  source, the first failing one raising its error. The coordinates are the numbers the
  API has accepted as such, taken as integers.
\<close>

definition validateMove ::
  "Engine \<Rightarrow> BoardState \<Rightarrow> int \<Rightarrow> int \<Rightarrow> string \<Rightarrow> CheckSettings \<Rightarrow> GoError + unit" where
  "validateMove E g x y methodName check =
     (let boardSize = int (length (board g)) in
      if x < 0 \<or> boardSize \<le> x then Inl (InvalidColumn x boardSize)
      else if y < 0 \<or> boardSize \<le> y then Inl (InvalidRow y boardSize)
      else
        (let moveString = moveAt methodName x y in
         case validateTurn g moveString of
           Inl e \<Rightarrow> Inl e
         | Inr u \<Rightarrow>
            (let validity = evaluateIfMoveIsValid E g x y black in
             case readPoint (board g) x y of
               Inl e \<Rightarrow> Inl e
             | Inr point \<Rightarrow>
                (if point = None \<and> onlineNode check then Inl (OfflineNode x y methodName)
                 else if validity = noSuicide \<and> suicide check
                   then Inl (SuicideError moveString validity)
                 else if validity = boardRepeated \<and> repeat check
                   then Inl (RepeatError moveString validity)
                 else if map_option color point \<noteq> Some empty \<and> emptyNode check
                   then Inl (OccupiedPoint x y methodName)
                 else if map_option color point = Some empty \<and> requireNonEmptyNode check
                   then Inl (NoRouter x y)
                 else if point \<noteq> None \<and> requireOfflineNode check then Inl (NotOffline x y)
                 else Inr ()))))"

section \<open>Moves, passes and the end of a game\<close>

text \<open>
  Modelled from the spec: \<^verbatim>\<open>endGoGame\<close>, \<^verbatim>\<open>passTurn\<close> and \<^verbatim>\<open>makeMove\<close> of \<^verbatim>\<open>boardState\<close> and
  \<^verbatim>\<open>scoring\<close> are called by the sources at hand but their code is not among them.

  \<^verbatim>\<open>endGoGame\<close>: the game becomes terminal, "previous player is set to null". The
  statistics it updates are not part of the game state.
\<close>

definition endGoGame :: "BoardState \<Rightarrow> BoardState" where
  "endGoGame g = g\<lparr>previousPlayer := None\<rparr>"

text \<open>
  Modelled from the spec: \<^verbatim>\<open>passTurn(board, color)\<close> "increments the pass counter and sets
  previous player to color; if the pass counter reaches 2 consecutive passes, the game
  transitions to terminal". The third argument, which \<^verbatim>\<open>determineCheatSuccess\<close> passes
  as \<^verbatim>\<open>false\<close>, is the switch for that game-ending effect (a failed cheat is a "pass
  without [...] the legal-pass counter's game-ending effect").
\<close>

definition passTurn :: "BoardState \<Rightarrow> GoColor \<Rightarrow> bool \<Rightarrow> BoardState" where
  "passTurn g player allowEndGame =
     (let g' = g\<lparr>passCount := passCount g + 1, previousPlayer := Some player\<rparr>
      in if 2 \<le> passCount g' \<and> allowEndGame then endGoGame g' else g')"

text \<open>
  Modelled from the spec: the "place stone" step of \<^verbatim>\<open>makeMove\<close>, the point at \<open>(x, y)\<close>
  taking the colour; where there is no point to take it the board stays as it is.
\<close>

definition placeStone :: "Board \<Rightarrow> int \<Rightarrow> int \<Rightarrow> GoColor \<Rightarrow> Board" where
  "placeStone b x y c = (case setColor b x y c of Inl e \<Rightarrow> b | Inr b' \<Rightarrow> b')"

text \<open>
  Modelled from the spec: \<^verbatim>\<open>makeMove(board, x, y, color)\<close> is "false if illegal, with no
  side effects", illegal being "any Validity other than valid"; else it does "place
  stone, run capture resolution, append the pre-move board snapshot to history, reset
  consecutive-pass counter to 0, set previous player to color".
\<close>

definition makeMove ::
  "Engine \<Rightarrow> BoardState \<Rightarrow> int \<Rightarrow> int \<Rightarrow> GoColor \<Rightarrow> bool \<times> BoardState" where
  "makeMove E g x y player =
     (if evaluateIfMoveIsValid E g x y player \<noteq> valid then (False, g)
      else (True, g\<lparr>board := updateCaptures E (placeStone (board g) x y player) player,
                     previousBoards := previousBoards g @ [boardStringFromBoard E (board g)],
                     passCount := 0,
                     previousPlayer := Some player\<rparr>))"

section \<open>The player's move\<close>

text \<open>
  \<^verbatim>\<open>makePlayerMove(logger, error, x, y)\<close>. The source calls \<^verbatim>\<open>makeMove\<close> before it looks
  at the validity, so the state at the error is the one \<^verbatim>\<open>makeMove\<close> leaves.
\<close>

definition makePlayerMove :: "Engine \<Rightarrow> int \<Rightarrow> int \<Rightarrow> World \<Rightarrow> (GoError + Pending) \<times> World" where
  "makePlayerMove E x y w =
     (let boardState = currentGame w;
          validity = evaluateIfMoveIsValid E boardState x y black;
          (moveWasMade, boardState') = makeMove E boardState x y black;
          w' = w\<lparr>currentGame := boardState'\<rparr>
      in if validity \<noteq> valid \<or> \<not> moveWasMade then (Inl (InvalidMove x y validity), w')
         else (Inr aiMove, logger (MovePlayed x y) (emit w')))"

section \<open>The grid of valid moves\<close>

text \<open>
  \<^verbatim>\<open>getValidMoves()\<close>: \<^verbatim>\<open>board.map((column, x) => column.reduce(...push(isValid)..., []))\<close>.
  The \<^verbatim>\<open>reduce\<close> is a left fold over the cells with their indices.
\<close>

definition columnValidity :: "Engine \<Rightarrow> BoardState \<Rightarrow> nat \<Rightarrow> PointState option list \<Rightarrow> bool list" where
  "columnValidity E boardState x column =
     foldl (\<lambda>validityArray (y, point).
              validityArray @ [evaluateIfMoveIsValid E boardState (int x) (int y) black = valid])
       [] (enumerate 0 column)"

definition getValidMoves :: "Engine \<Rightarrow> World \<Rightarrow> bool list list \<times> World" where
  "getValidMoves E w =
     (let boardState = currentGame w
      in (map (\<lambda>(x, column). columnValidity E boardState x column)
            (enumerate 0 (board boardState)), w))"

section \<open>Resetting the board\<close>

text \<open>\<^verbatim>\<open>resetBoardState(logger, error, opponent, boardSize)\<close>.\<close>

definition resetBoardState ::
  "Engine \<Rightarrow> PlayerObject \<Rightarrow> GoOpponent \<Rightarrow> int \<Rightarrow> World \<Rightarrow> (GoError + string list) \<times> World" where
  "resetBoardState E P opponent boardSize w =
     (if boardSize \<notin> set [5, 7, 9, 13] \<and> opponent \<noteq> w0r1d_d43m0n
        then (Inl (InvalidSize boardSize), w)
      else if opponent = w0r1d_d43m0n \<and> \<not> hasTheRedPill P
        then (Inl (InvalidOpponent opponent), w)
      else
        (let oldBoardState = currentGame w;
             w1 = (if previousPlayer oldBoardState \<noteq> None \<and> previousBoards oldBoardState \<noteq> []
                   then w\<lparr>winstreakResets := winstreakResets w @ [ai oldBoardState]\<rparr> else w);
             w2 = w1\<lparr>currentGame := getNewBoardState E boardSize opponent True\<rparr>;
             w3 = logger (NewGameStarted opponent boardSize) (emit w2)
         in (Inr (simpleBoardFromBoard E (board (currentGame w3))), w3)))"

section \<open>Cheats\<close>

text \<open>
  \<^verbatim>\<open>determineCheatSuccess(logger, callback, successRngOverride, ejectRngOverride)\<close>.

  \<open>rng\<close> is the sequence of values that \<^verbatim>\<open>rng.random()\<close> of the generator
  \<^verbatim>\<open>new WHRNG(Player.totalPlaytime)\<close> returns, call after call: the eject roll is its
  second value when the success roll was drawn from it, its first one when the success
  roll was overridden. \<^verbatim>\<open>a ?? b\<close> takes \<^verbatim>\<open>b\<close> when \<^verbatim>\<open>a\<close> is missing.

  The callback works on \<^verbatim>\<open>Go.currentGame\<close> in place, which is the object \<^verbatim>\<open>state\<close>; a
  callback that throws ends the operation where it stands, after
  \<^verbatim>\<open>state.passCount = 0\<close>.
\<close>

definition determineCheatSuccess ::
  "PlayerObject \<Rightarrow> (nat \<Rightarrow> real) \<Rightarrow> (World \<Rightarrow> (GoError + unit) \<times> World) \<Rightarrow>
   real option \<Rightarrow> real option \<Rightarrow> World \<Rightarrow> (GoError + Pending) \<times> World" where
  "determineCheatSuccess P rng callback successRngOverride ejectRngOverride w0 =
     (let w = w0\<lparr>currentGame := (currentGame w0)\<lparr>passCount := 0\<rparr>\<rparr>;
          state = currentGame w;
          (successRoll, drawn) =
             (case successRngOverride of Some r \<Rightarrow> (r, 0) | None \<Rightarrow> (rng 0, Suc 0))
      in if successRoll \<le> cheatSuccessChance P (cheatCount state) then
           (case callback w of
              (Inl e, w') \<Rightarrow> (Inl e, w')
            | (Inr u, w') \<Rightarrow>
                (let w'' = emit w'
                 in (Inr aiMove,
                     w''\<lparr>currentGame := (currentGame w'')
                                          \<lparr>cheatCount := cheatCount (currentGame w'') + 1\<rparr>\<rparr>)))
         else if cheatCount state \<noteq> 0
                 \<and> (case ejectRngOverride of Some r \<Rightarrow> r | None \<Rightarrow> rng drawn) < 0.1 then
           (Inr nextTurn, (logger CheatEjected w)\<lparr>currentGame := endGoGame state\<rparr>)
         else
           (let state' = passTurn state black False
            in (Inr aiMove,
                (logger CheatSkipped w)
                  \<lparr>currentGame := state'\<lparr>cheatCount := cheatCount state' + 1\<rparr>\<rparr>)))"

text \<open>
  The callbacks of the four cheats. Each changes the board, has the chains (or the
  captures) recomputed, makes black the previous player and logs its success.
\<close>

definition removeRouterCallback :: "Engine \<Rightarrow> int \<Rightarrow> int \<Rightarrow> World \<Rightarrow> (GoError + unit) \<times> World" where
  "removeRouterCallback E x y w =
     (let g = currentGame w in
      case setColor (board g) x y empty of
        Inl e \<Rightarrow> (Inl e, w)
      | Inr b \<Rightarrow>
          (Inr (), logger (RouterCleared x y)
                     (w\<lparr>currentGame := g\<lparr>board := updateChains E b,
                                          previousPlayer := Some black\<rparr>\<rparr>)))"

definition playTwoMovesCallback ::
  "Engine \<Rightarrow> int \<Rightarrow> int \<Rightarrow> int \<Rightarrow> int \<Rightarrow> World \<Rightarrow> (GoError + unit) \<times> World" where
  "playTwoMovesCallback E x1 y1 x2 y2 w =
     (let g = currentGame w in
      case setColor (board g) x1 y1 black of
        Inl e \<Rightarrow> (Inl e, w)
      | Inr b1 \<Rightarrow>
          (case setColor b1 x2 y2 black of
             Inl e \<Rightarrow> (Inl e, w\<lparr>currentGame := g\<lparr>board := b1\<rparr>\<rparr>)
           | Inr b2 \<Rightarrow>
               (Inr (), logger (TwoMovesPlayed x1 y1 x2 y2)
                          (w\<lparr>currentGame := g\<lparr>board := updateCaptures E b2 black,
                                               previousPlayer := Some black\<rparr>\<rparr>))))"

definition repairOfflineNodeCallback ::
  "Engine \<Rightarrow> int \<Rightarrow> int \<Rightarrow> World \<Rightarrow> (GoError + unit) \<times> World" where
  "repairOfflineNodeCallback E x y w =
     (let g = currentGame w in
      case writePoint (board g) x y
             (Some \<lparr>color = empty, chain = [], liberties = None, point_x = x, point_y = y\<rparr>) of
        Inl e \<Rightarrow> (Inl e, w)
      | Inr b \<Rightarrow>
          (Inr (), logger (NodeRepaired x y)
                     (w\<lparr>currentGame := g\<lparr>board := updateChains E b,
                                          previousPlayer := Some black\<rparr>\<rparr>)))"

definition destroyNodeCallback :: "Engine \<Rightarrow> int \<Rightarrow> int \<Rightarrow> World \<Rightarrow> (GoError + unit) \<times> World" where
  "destroyNodeCallback E x y w =
     (let g = currentGame w in
      case writePoint (board g) x y None of
        Inl e \<Rightarrow> (Inl e, w)
      | Inr b \<Rightarrow>
          (Inr (), logger (NodeDestroyed x y)
                     (w\<lparr>currentGame := g\<lparr>board := updateChains E b,
                                          previousPlayer := Some black\<rparr>\<rparr>)))"

text \<open>
  The four cheat operations. \<^verbatim>\<open>cheatRemoveRouter\<close> and \<^verbatim>\<open>cheatPlayTwoMoves\<close> read their
  points before they start the resolution.
\<close>

definition cheatRemoveRouter ::
  "Engine \<Rightarrow> PlayerObject \<Rightarrow> (nat \<Rightarrow> real) \<Rightarrow> int \<Rightarrow> int \<Rightarrow> real option \<Rightarrow> real option \<Rightarrow>
   World \<Rightarrow> (GoError + Pending) \<times> World" where
  "cheatRemoveRouter E P rng x y successRngOverride ejectRngOverride w =
     (case readPoint (board (currentGame w)) x y of
        Inl e \<Rightarrow> (Inl e, w)
      | Inr point \<Rightarrow>
          determineCheatSuccess P rng (removeRouterCallback E x y)
            successRngOverride ejectRngOverride w)"

definition cheatPlayTwoMoves ::
  "Engine \<Rightarrow> PlayerObject \<Rightarrow> (nat \<Rightarrow> real) \<Rightarrow> int \<Rightarrow> int \<Rightarrow> int \<Rightarrow> int \<Rightarrow>
   real option \<Rightarrow> real option \<Rightarrow> World \<Rightarrow> (GoError + Pending) \<times> World" where
  "cheatPlayTwoMoves E P rng x1 y1 x2 y2 successRngOverride ejectRngOverride w =
     (case readPoint (board (currentGame w)) x1 y1 of
        Inl e \<Rightarrow> (Inl e, w)
      | Inr point1 \<Rightarrow>
          (case readPoint (board (currentGame w)) x2 y2 of
             Inl e \<Rightarrow> (Inl e, w)
           | Inr point2 \<Rightarrow>
               determineCheatSuccess P rng (playTwoMovesCallback E x1 y1 x2 y2)
                 successRngOverride ejectRngOverride w))"

definition cheatRepairOfflineNode ::
  "Engine \<Rightarrow> PlayerObject \<Rightarrow> (nat \<Rightarrow> real) \<Rightarrow> int \<Rightarrow> int \<Rightarrow> real option \<Rightarrow> real option \<Rightarrow>
   World \<Rightarrow> (GoError + Pending) \<times> World" where
  "cheatRepairOfflineNode E P rng x y successRngOverride ejectRngOverride w =
     determineCheatSuccess P rng (repairOfflineNodeCallback E x y)
       successRngOverride ejectRngOverride w"

definition cheatDestroyNode ::
  "Engine \<Rightarrow> PlayerObject \<Rightarrow> (nat \<Rightarrow> real) \<Rightarrow> int \<Rightarrow> int \<Rightarrow> real option \<Rightarrow> real option \<Rightarrow>
   World \<Rightarrow> (GoError + Pending) \<times> World" where
  "cheatDestroyNode E P rng x y successRngOverride ejectRngOverride w =
     determineCheatSuccess P rng (destroyNodeCallback E x y)
       successRngOverride ejectRngOverride w"

text \<open>\<^verbatim>\<open>checkCheatApiAccess(error)\<close>.\<close>

definition checkCheatApiAccess :: "PlayerObject \<Rightarrow> GoError + unit" where
  "checkCheatApiAccess P =
     (let hasSourceFile = (1 < sourceFileLvl14 P);
          isBitnodeFourteenTwo = (sourceFileLvl14 P = 1 \<and> bitNodeN P = 14)
      in if \<not> hasSourceFile \<and> \<not> isBitnodeFourteenTwo then Inl NoCheatAccess else Inr ())"

section \<open>The scripting API\<close>

text \<open>
  The entry points of \<^verbatim>\<open>NetscriptGo()\<close> that place or remove a stone
  (\<^verbatim>\<open>NetscriptFunctions/Go.ts\<close>): access check for the cheats, \<^verbatim>\<open>validateMove\<close> with the
  settings of the entry point, then the operation, with no roll overridden.
\<close>

definition NetscriptGo_makeMove :: "Engine \<Rightarrow> int \<Rightarrow> int \<Rightarrow> World \<Rightarrow> (GoError + Pending) \<times> World" where
  "NetscriptGo_makeMove E x y w =
     (case validateMove E (currentGame w) x y ''makeMove'' defaultCheck of
        Inl e \<Rightarrow> (Inl e, w)
      | Inr u \<Rightarrow> makePlayerMove E x y w)"

definition NetscriptGo_removeRouter ::
  "Engine \<Rightarrow> PlayerObject \<Rightarrow> (nat \<Rightarrow> real) \<Rightarrow> int \<Rightarrow> int \<Rightarrow> World \<Rightarrow> (GoError + Pending) \<times> World" where
  "NetscriptGo_removeRouter E P rng x y w =
     (case checkCheatApiAccess P of
        Inl e \<Rightarrow> (Inl e, w)
      | Inr u \<Rightarrow>
          (case validateMove E (currentGame w) x y ''removeRouter''
                  (defaultCheck\<lparr>emptyNode := False, requireNonEmptyNode := True,
                                 repeat := False, suicide := False\<rparr>) of
             Inl e \<Rightarrow> (Inl e, w)
           | Inr u' \<Rightarrow> cheatRemoveRouter E P rng x y None None w))"

definition NetscriptGo_playTwoMoves ::
  "Engine \<Rightarrow> PlayerObject \<Rightarrow> (nat \<Rightarrow> real) \<Rightarrow> int \<Rightarrow> int \<Rightarrow> int \<Rightarrow> int \<Rightarrow> World \<Rightarrow>
   (GoError + Pending) \<times> World" where
  "NetscriptGo_playTwoMoves E P rng x1 y1 x2 y2 w =
     (case checkCheatApiAccess P of
        Inl e \<Rightarrow> (Inl e, w)
      | Inr u \<Rightarrow>
          (case validateMove E (currentGame w) x1 y1 ''playTwoMoves''
                  (defaultCheck\<lparr>repeat := False, suicide := False\<rparr>) of
             Inl e \<Rightarrow> (Inl e, w)
           | Inr u1 \<Rightarrow>
               (case validateMove E (currentGame w) x2 y2 ''playTwoMoves''
                       (defaultCheck\<lparr>repeat := False, suicide := False\<rparr>) of
                  Inl e \<Rightarrow> (Inl e, w)
                | Inr u2 \<Rightarrow> cheatPlayTwoMoves E P rng x1 y1 x2 y2 None None w)))"

definition NetscriptGo_repairOfflineNode ::
  "Engine \<Rightarrow> PlayerObject \<Rightarrow> (nat \<Rightarrow> real) \<Rightarrow> int \<Rightarrow> int \<Rightarrow> World \<Rightarrow> (GoError + Pending) \<times> World" where
  "NetscriptGo_repairOfflineNode E P rng x y w =
     (case checkCheatApiAccess P of
        Inl e \<Rightarrow> (Inl e, w)
      | Inr u \<Rightarrow>
          (case validateMove E (currentGame w) x y ''repairOfflineNode''
                  (defaultCheck\<lparr>emptyNode := False, repeat := False, onlineNode := False,
                                 requireOfflineNode := True, suicide := False\<rparr>) of
             Inl e \<Rightarrow> (Inl e, w)
           | Inr u' \<Rightarrow> cheatRepairOfflineNode E P rng x y None None w))"

definition NetscriptGo_destroyNode ::
  "Engine \<Rightarrow> PlayerObject \<Rightarrow> (nat \<Rightarrow> real) \<Rightarrow> int \<Rightarrow> int \<Rightarrow> World \<Rightarrow> (GoError + Pending) \<times> World" where
  "NetscriptGo_destroyNode E P rng x y w =
     (case checkCheatApiAccess P of
        Inl e \<Rightarrow> (Inl e, w)
      | Inr u \<Rightarrow>
          (case validateMove E (currentGame w) x y ''destroyNode''
                  (defaultCheck\<lparr>repeat := False, onlineNode := True, suicide := False\<rparr>) of
             Inl e \<Rightarrow> (Inl e, w)
           | Inr u' \<Rightarrow> cheatDestroyNode E P rng x y None None w))"

section \<open>The rolls of a cheat attempt\<close>

text \<open>
  The two rolls \<^verbatim>\<open>determineCheatSuccess\<close> compares, as functions of its arguments: the
  success roll, and the eject roll it draws when the success roll has failed; and the
  state after its first assignment, \<^verbatim>\<open>state.passCount = 0\<close>.
\<close>

definition successRoll :: "(nat \<Rightarrow> real) \<Rightarrow> real option \<Rightarrow> real" where
  "successRoll rng successRngOverride =
     (case successRngOverride of Some r \<Rightarrow> r | None \<Rightarrow> rng 0)"

definition ejectRoll :: "(nat \<Rightarrow> real) \<Rightarrow> real option \<Rightarrow> real option \<Rightarrow> real" where
  "ejectRoll rng successRngOverride ejectRngOverride =
     (case ejectRngOverride of
        Some r \<Rightarrow> r
      | None \<Rightarrow> (case successRngOverride of Some r \<Rightarrow> rng 0 | None \<Rightarrow> rng 1))"

definition resetPasses :: "World \<Rightarrow> World" where
  "resetPasses w = w\<lparr>currentGame := (currentGame w)\<lparr>passCount := 0\<rparr>\<rparr>"

section \<open>Game objects, resets and pending opponent moves\<close>

text \<open>
  \<^verbatim>\<open>Go.currentGame\<close> is a reference to a game-state object. \<^verbatim>\<open>resetState\<close> and
  \<^verbatim>\<open>resetBoardState\<close> do not touch the object of the old game: they assign
  \<^verbatim>\<open>Go.currentGame = getNewBoardState(...)\<close>, a new object. \<^verbatim>\<open>makePlayerMove\<close> and
  \<^verbatim>\<open>determineCheatSuccess\<close> give \<^verbatim>\<open>makeAIMove\<close> the object that is current at the call.
  The store keeps every game object made so far, by reference, and the reference that
  is current.
\<close>

record GoStore =
  games :: "BoardState list"
  currentRef :: nat

datatype Play = playMove int int | playPass | playGameOver

record PendingMove =
  target :: nat
  play :: Play

text \<open>
  \<^verbatim>\<open>resetState(newBoardSize, newOpponent)\<close> of the game board component, on the store. Its
  other effects are on the component's own flags and on \<^verbatim>\<open>Go.stats\<close>.
\<close>

definition resetState :: "Engine \<Rightarrow> int \<Rightarrow> GoOpponent \<Rightarrow> GoStore \<Rightarrow> GoStore" where
  "resetState E newBoardSize newOpponent h =
     h\<lparr>games := games h @ [getNewBoardState E newBoardSize newOpponent True],
       currentRef := length (games h)\<rparr>"

text \<open>The opponent's move requested for the current game: \<^verbatim>\<open>makeAIMove(Go.currentGame)\<close>.\<close>

definition pendingFor :: "GoStore \<Rightarrow> Play \<Rightarrow> PendingMove" where
  "pendingFor h p = \<lparr>target = currentRef h, play = p\<rparr>"

text \<open>
  Modelled from the spec: the resolution of a pending opponent move, which is part of
  \<^verbatim>\<open>makeAIMove\<close> in \<^verbatim>\<open>goAI\<close> and not among the sources at hand. The selected play is fed
  "back through the same validate/apply path" as a player's; and "the engine must
  tolerate a stale opponent-move resolution arriving after a reset by checking whether
  the game identity/generation it targeted is still current". First the effect of a play
  on a game, for white.
\<close>

definition applyPlay :: "Engine \<Rightarrow> Play \<Rightarrow> BoardState \<Rightarrow> BoardState" where
  "applyPlay E p g =
     (case p of
        playMove x y \<Rightarrow> snd (makeMove E g x y white)
      | playPass \<Rightarrow> passTurn g white True
      | playGameOver \<Rightarrow> endGoGame g)"

text \<open>
  Modelled from the spec: the play applied to the game object the pending move holds,
  whichever game is current.
\<close>

definition applyAt :: "Engine \<Rightarrow> PendingMove \<Rightarrow> GoStore \<Rightarrow> GoStore" where
  "applyAt E p h =
     (if target p < length (games h)
      then h\<lparr>games := (games h)[target p := applyPlay E (play p) (games h ! target p)]\<rparr>
      else h)"

text \<open>
  Modelled from the spec: the resolution proper, which applies the play only when the
  game it targeted "is still current".
\<close>

definition resolveAIMove :: "Engine \<Rightarrow> PendingMove \<Rightarrow> GoStore \<Rightarrow> GoStore" where
  "resolveAIMove E p h = (if target p = currentRef h then applyAt E p h else h)"

section \<open>Sample inputs\<close>

text \<open>
  A small engine and a small game on which the operations can be run: the validator
  has the first two checks of the specification's list (bounds, then an empty online
  point), chains and captures are left as they are, and a new game is an empty board.
\<close>

definition samplePoint :: "GoColor \<Rightarrow> int \<Rightarrow> int \<Rightarrow> PointState option" where
  "samplePoint c x y = Some \<lparr>color = c, chain = [], liberties = None, point_x = x, point_y = y\<rparr>"

definition sampleEvaluate :: "BoardState \<Rightarrow> int \<Rightarrow> int \<Rightarrow> GoColor \<Rightarrow> GoValidity" where
  "sampleEvaluate g x y c =
     (let n = int (length (board g)) in
      if x < 0 \<or> n \<le> x \<or> y < 0 \<or> n \<le> y then outOfBounds
      else case readPoint (board g) x y of
             Inr (Some p) \<Rightarrow> if color p = empty then valid else pointNotEmpty
           | _ \<Rightarrow> pointNotEmpty)"

definition sampleNewBoardState :: "int \<Rightarrow> GoOpponent \<Rightarrow> bool \<Rightarrow> BoardState" where
  "sampleNewBoardState n opponent applyObstacles =
     \<lparr>board = map (\<lambda>x. map (\<lambda>y. samplePoint empty (int x) (int y)) [0..<nat n]) [0..<nat n],
      previousPlayer = Some white, previousBoards = [], ai = opponent,
      passCount = 0, cheatCount = 0\<rparr>"

definition sampleEngine :: Engine where
  "sampleEngine =
     \<lparr>evaluateIfMoveIsValid = sampleEvaluate,
      updateChains = (\<lambda>b. b),
      updateCaptures = (\<lambda>b c. b),
      getNewBoardState = sampleNewBoardState,
      simpleBoardFromBoard = (\<lambda>b. []),
      boardStringFromBoard = (\<lambda>b. [])\<rparr>"

text \<open>
  A 2 x 2 game in which it is black's turn, after one pass and one earlier cheat:
  column 0 holds an empty point and a black router, column 1 an offline node and a white
  router.
\<close>

definition sampleGame :: BoardState where
  "sampleGame =
     \<lparr>board = [[samplePoint empty 0 0, samplePoint black 0 1],
               [None, samplePoint white 1 1]],
      previousPlayer = Some white, previousBoards = [], ai = faction ''Netburners'',
      passCount = 1, cheatCount = 1\<rparr>"

definition sampleWorld :: World where
  "sampleWorld = \<lparr>currentGame = sampleGame, emitted = 0, logs = [], winstreakResets = []\<rparr>"

definition samplePlayer :: PlayerObject where
  "samplePlayer = \<lparr>crime_success = 1, sourceFileLvl14 = 2, bitNodeN = 12, hasTheRedPill = False\<rparr>"


text \<open>A generator whose first value is 1 and whose later values are 0.\<close>

definition sampleRng :: "nat \<Rightarrow> real" where
  "sampleRng i = (if i = 0 then 1 else 0)"

section \<open>Coordinates outside the board\<close>

text \<open>
  The two bounds tests of \<^verbatim>\<open>validateMove\<close> taken together, and the error the first
  failing one raises: the column is tested before the row.
\<close>

definition outsideBoard :: "BoardState \<Rightarrow> int \<Rightarrow> int \<Rightarrow> bool" where
  "outsideBoard g x y =
     (x < 0 \<or> int (length (board g)) \<le> x \<or> y < 0 \<or> int (length (board g)) \<le> y)"

definition coordinateError :: "BoardState \<Rightarrow> int \<Rightarrow> int \<Rightarrow> GoError" where
  "coordinateError g x y =
     (if x < 0 \<or> int (length (board g)) \<le> x
      then InvalidColumn x (int (length (board g)))
      else InvalidRow y (int (length (board g))))"

text \<open>A store whose only game object, the current one, is the sample game.\<close>

definition sampleStore :: GoStore where
  "sampleStore = \<lparr>games = [sampleGame], currentRef = 0\<rparr>"

section \<open>Properties of the cheat success chance\<close>

lemma cheatSuccessChance_range: "0 \<le> cheatSuccessChance P n \<and> cheatSuccessChance P n \<le> 1"
  by (simp add: cheatSuccessChance_def)

lemma cheatCountScalar_decreasing:
  assumes "n < 35"
  shows "cheatCountScalar (Suc n) \<le> cheatCountScalar n"
proof -
  let ?a = "0.7 - 0.02 * real (Suc n)" and ?b = "0.7 - 0.02 * real n"
  have a0: "0 \<le> ?a" using assms by simp
  have ab: "?a \<le> ?b" by simp
  have a1: "?a \<le> 1" by (simp add: field_simps)
  have "?a ^ Suc n = ?a * ?a ^ n" by simp
  also have "\<dots> \<le> 1 * ?a ^ n" using a0 a1 by (intro mult_right_mono) auto
  also have "\<dots> \<le> ?b ^ n" using a0 ab by (simp add: power_mono)
  finally show ?thesis by (simp add: cheatCountScalar_def)
qed

lemma cheatSuccessChance_decreasing_below_35:
  assumes "n < 35" and "0 \<le> crime_success P"
  shows "cheatSuccessChance P (Suc n) \<le> cheatSuccessChance P n"
proof -
  have "0.6 * cheatCountScalar (Suc n) * crime_success P
          \<le> 0.6 * cheatCountScalar n * crime_success P"
    using cheatCountScalar_decreasing [OF assms(1)] assms(2)
    by (intro mult_right_mono mult_left_mono) auto
  then have "0.6 * cheatCountScalar (Suc n) * crime_success P + sourceFileBonus P
               \<le> 0.6 * cheatCountScalar n * crime_success P + sourceFileBonus P"
    by linarith
  then show ?thesis
    unfolding cheatSuccessChance_def by (intro max.mono min.mono) auto
qed

lemma cheatSuccessChance_99: "cheatSuccessChance samplePlayer 99 = 0"
proof -
  have "(0::real) \<le> 3 * (32 / 25) ^ 99 / 5" by simp
  then have "min (- (3 * (32 / 25) ^ 99 / 5)) (1::real) \<le> 0" by linarith
  then show ?thesis
    by (simp add: cheatSuccessChance_def cheatCountScalar_def sourceFileBonus_def
        samplePlayer_def max_absorb2)
qed

lemma cheatSuccessChance_100: "cheatSuccessChance samplePlayer 100 = 1"
proof -
  have "(13 / 10 :: real) ^ 3 \<le> (13 / 10) ^ 100"
    by (rule power_increasing) simp_all
  then have "(5 / 3 :: real) \<le> (13 / 10) ^ 100" by (simp add: power3_eq_cube)
  then show ?thesis
    by (simp add: cheatSuccessChance_def cheatCountScalar_def sourceFileBonus_def
        samplePlayer_def max_def min_def)
qed

lemma cheatSuccessChance_1: "cheatSuccessChance samplePlayer 1 = 51 / 125"
  by (simp add: cheatSuccessChance_def cheatCountScalar_def sourceFileBonus_def samplePlayer_def)


text \<open>
  C2. The claim: for a fixed skill modifier the chance never increases with the attempt
  count and always lies in \<open>[0, 1]\<close>. The bounds hold (\<open>cheatSuccessChance_range\<close>), and
  the chance does not increase up to 35 attempts (\<open>cheatSuccessChance_decreasing_below_35\<close>).
  Beyond that the base \<open>0.7 - 0.02 n\<close> is negative and grows in size: with the plain
  multiplier 1 and no source-file bonus the chance is 0 at 99 attempts and 1 at 100.
\<close>

theorem cheatSuccessChance_increases_at_100:
  "cheatSuccessChance samplePlayer 99 = 0 \<and> cheatSuccessChance samplePlayer 100 = 1
   \<and> \<not> cheatSuccessChance samplePlayer (99 + 1) \<le> cheatSuccessChance samplePlayer 99"
proof -
  have "(99::nat) + 1 = 100" by simp
  then show ?thesis
    using cheatSuccessChance_99 cheatSuccessChance_100 by simp
qed

section \<open>The three outcomes of a cheat attempt\<close>

lemma determineCheatSuccess_success:
  assumes "successRoll rng so \<le> cheatSuccessChance P (cheatCount (currentGame w))"
    and "callback (resetPasses w) = (Inr u, w')"
  shows "determineCheatSuccess P rng callback so eo w =
           (Inr aiMove,
            (emit w')\<lparr>currentGame := (currentGame w')
                                      \<lparr>cheatCount := cheatCount (currentGame w') + 1\<rparr>\<rparr>)"
  using assms
  by (cases so)
     (simp_all add: determineCheatSuccess_def successRoll_def resetPasses_def emit_def Let_def)

lemma determineCheatSuccess_callback_error:
  assumes "successRoll rng so \<le> cheatSuccessChance P (cheatCount (currentGame w))"
    and "callback (resetPasses w) = (Inl e, w')"
  shows "determineCheatSuccess P rng callback so eo w = (Inl e, w')"
  using assms
  by (cases so)
     (simp_all add: determineCheatSuccess_def successRoll_def resetPasses_def Let_def)

lemma determineCheatSuccess_eject:
  assumes "\<not> successRoll rng so \<le> cheatSuccessChance P (cheatCount (currentGame w))"
    and "cheatCount (currentGame w) \<noteq> 0" and "ejectRoll rng so eo < 0.1"
  shows "determineCheatSuccess P rng callback so eo w =
           (Inr nextTurn, (logger CheatEjected (resetPasses w))
              \<lparr>currentGame := endGoGame (currentGame (resetPasses w))\<rparr>)"
  using assms
  by (cases so; cases eo)
     (simp_all add: determineCheatSuccess_def successRoll_def ejectRoll_def resetPasses_def
        Let_def)

lemma determineCheatSuccess_skip:
  assumes "\<not> successRoll rng so \<le> cheatSuccessChance P (cheatCount (currentGame w))"
    and "cheatCount (currentGame w) = 0 \<or> \<not> ejectRoll rng so eo < 0.1"
  shows "determineCheatSuccess P rng callback so eo w =
           (Inr aiMove, (logger CheatSkipped (resetPasses w))
              \<lparr>currentGame := (passTurn (currentGame (resetPasses w)) black False)
                 \<lparr>cheatCount := cheatCount (currentGame w) + 1\<rparr>\<rparr>)"
  using assms
  by (cases so; cases eo)
     (auto simp add: determineCheatSuccess_def successRoll_def ejectRoll_def resetPasses_def
        Let_def passTurn_def)

lemma passTurn_no_end [simp]:
  "previousPlayer (passTurn g player False) = Some player"
  "passCount (passTurn g player False) = passCount g + 1"
  "cheatCount (passTurn g player False) = cheatCount g"
  by (simp_all add: passTurn_def Let_def)

lemma resetPasses_simps [simp]:
  "passCount (currentGame (resetPasses w)) = 0"
  "cheatCount (currentGame (resetPasses w)) = cheatCount (currentGame w)"
  "previousPlayer (currentGame (resetPasses w)) = previousPlayer (currentGame w)"
  "resetPasses (resetPasses w) = resetPasses w"
  by (simp_all add: resetPasses_def)

lemma determineCheatSuccess_resetPasses:
  "determineCheatSuccess P rng callback so eo (resetPasses w)
     = determineCheatSuccess P rng callback so eo w"
  by (simp add: determineCheatSuccess_def resetPasses_def)

text \<open>The counter of attempts goes up by one when the cheat succeeds or the turn is skipped.\<close>

lemma cheatCount_after_success:
  assumes "successRoll rng so \<le> cheatSuccessChance P (cheatCount (currentGame w))"
    and "callback (resetPasses w) = (Inr u, w')"
    and "cheatCount (currentGame w') = cheatCount (currentGame w)"
  shows "cheatCount (currentGame (snd (determineCheatSuccess P rng callback so eo w)))
           = cheatCount (currentGame w) + 1"
  using determineCheatSuccess_success [where callback = callback, OF assms(1,2)] assms(3)
  by (simp add: emit_def)

lemma cheatCount_after_skip:
  assumes "\<not> successRoll rng so \<le> cheatSuccessChance P (cheatCount (currentGame w))"
    and "cheatCount (currentGame w) = 0 \<or> \<not> ejectRoll rng so eo < 0.1"
  shows "cheatCount (currentGame (snd (determineCheatSuccess P rng callback so eo w)))
           = cheatCount (currentGame w) + 1"
  using determineCheatSuccess_skip [OF assms] by simp

lemma cheatCount_after_eject:
  assumes "\<not> successRoll rng so \<le> cheatSuccessChance P (cheatCount (currentGame w))"
    and "cheatCount (currentGame w) \<noteq> 0" and "ejectRoll rng so eo < 0.1"
  shows "cheatCount (currentGame (snd (determineCheatSuccess P rng callback so eo w)))
           = cheatCount (currentGame w)"
  using determineCheatSuccess_eject [OF assms] by (simp add: endGoGame_def logger_def)

text \<open>None of the four callbacks touches the two counters of the game.\<close>

lemma removeRouterCallback_counters:
  "cheatCount (currentGame (snd (removeRouterCallback E x y w))) = cheatCount (currentGame w)"
  "passCount (currentGame (snd (removeRouterCallback E x y w))) = passCount (currentGame w)"
  by (simp_all add: removeRouterCallback_def Let_def logger_def split: sum.splits)

lemma playTwoMovesCallback_counters:
  "cheatCount (currentGame (snd (playTwoMovesCallback E x1 y1 x2 y2 w)))
     = cheatCount (currentGame w)"
  "passCount (currentGame (snd (playTwoMovesCallback E x1 y1 x2 y2 w)))
     = passCount (currentGame w)"
  by (simp_all add: playTwoMovesCallback_def Let_def logger_def split: sum.splits)

lemma repairOfflineNodeCallback_counters:
  "cheatCount (currentGame (snd (repairOfflineNodeCallback E x y w)))
     = cheatCount (currentGame w)"
  "passCount (currentGame (snd (repairOfflineNodeCallback E x y w)))
     = passCount (currentGame w)"
  by (simp_all add: repairOfflineNodeCallback_def Let_def logger_def split: sum.splits)

lemma destroyNodeCallback_counters:
  "cheatCount (currentGame (snd (destroyNodeCallback E x y w))) = cheatCount (currentGame w)"
  "passCount (currentGame (snd (destroyNodeCallback E x y w))) = passCount (currentGame w)"
  by (simp_all add: destroyNodeCallback_def Let_def logger_def split: sum.splits)

text \<open>The sample game, as the validation of \<^verbatim>\<open>removeRouter\<close> at \<open>(0, 1)\<close> sees it.\<close>

lemma sample_readPoint_0_1: "readPoint (board sampleGame) 0 1 = Inr (samplePoint black 0 1)"
  by (simp add: readPoint_def sampleGame_def)

lemma sampleGame_fields:
  "length (board sampleGame) = 2"
  "previousPlayer sampleGame = Some white"
  "passCount sampleGame = 1"
  "cheatCount sampleGame = 1"
  by (simp_all add: sampleGame_def)

lemma sample_validate_removeRouter:
  "validateMove sampleEngine sampleGame 0 1 ''removeRouter''
     (defaultCheck\<lparr>emptyNode := False, requireNonEmptyNode := True,
                    repeat := False, suicide := False\<rparr>) = Inr ()"
  by (simp add: validateMove_def validateTurn_def sample_readPoint_0_1 samplePoint_def
      defaultCheck_def sampleGame_fields Let_def)

lemma sample_access: "checkCheatApiAccess samplePlayer = Inr ()"
  by (simp add: checkCheatApiAccess_def samplePlayer_def)

lemma sample_rolls:
  "\<not> successRoll sampleRng None
       \<le> cheatSuccessChance samplePlayer (cheatCount (currentGame sampleWorld))"
  "ejectRoll sampleRng None None < 0.1"
  "cheatCount (currentGame sampleWorld) = 1"
  by (simp_all add: successRoll_def ejectRoll_def sampleRng_def sampleWorld_def
      sampleGame_fields cheatSuccessChance_1 del: One_nat_def)

text \<open>
  C1. The claim: the counter of cheat attempts is one higher after every call of
  \<^verbatim>\<open>determineCheatSuccess\<close>, whatever the outcome. It is so when the cheat succeeds
  (\<open>cheatCount_after_success\<close>) and when the turn is skipped (\<open>cheatCount_after_skip\<close>).
  When the player is ejected the source returns before \<^verbatim>\<open>state.cheatCount++\<close>
  (\<open>cheatCount_after_eject\<close>): \<^verbatim>\<open>removeRouter\<close> at \<open>(0, 1)\<close> of the sample game, with a
  success roll of 1 and an eject roll of 0, ends the game and leaves the counter at 1.
\<close>

theorem eject_leaves_cheatCount:
  "cheatCount (currentGame sampleWorld) = 1
   \<and> fst (NetscriptGo_removeRouter sampleEngine samplePlayer sampleRng 0 1 sampleWorld)
       = Inr nextTurn
   \<and> previousPlayer (currentGame (snd
        (NetscriptGo_removeRouter sampleEngine samplePlayer sampleRng 0 1 sampleWorld))) = None
   \<and> cheatCount (currentGame (snd
        (NetscriptGo_removeRouter sampleEngine samplePlayer sampleRng 0 1 sampleWorld))) = 1"
proof -
  have nz: "cheatCount (currentGame sampleWorld) \<noteq> 0" by (simp add: sample_rolls(3))
  have g: "currentGame sampleWorld = sampleGame" by (simp add: sampleWorld_def)
  have "NetscriptGo_removeRouter sampleEngine samplePlayer sampleRng 0 1 sampleWorld
          = determineCheatSuccess samplePlayer sampleRng (removeRouterCallback sampleEngine 0 1)
              None None sampleWorld"
    by (simp add: NetscriptGo_removeRouter_def cheatRemoveRouter_def sample_access g
        sample_validate_removeRouter sample_readPoint_0_1)
  also have "\<dots> = (Inr nextTurn, (logger CheatEjected (resetPasses sampleWorld))
                      \<lparr>currentGame := endGoGame (currentGame (resetPasses sampleWorld))\<rparr>)"
    by (rule determineCheatSuccess_eject [OF sample_rolls(1) nz sample_rolls(2)])
  finally show ?thesis
    by (simp add: endGoGame_def sample_rolls(3))
qed







text \<open>
  C9. The first assignment of \<^verbatim>\<open>determineCheatSuccess\<close> is \<^verbatim>\<open>state.passCount = 0\<close>: the
  whole resolution is the one of the state with no pass counted, so the passes made
  before the attempt have no effect on it. With a callback that leaves the pass counter
  alone, as the four cheats' callbacks do, the counter afterwards is 1 when the turn was
  skipped (the skip itself, after which black is the previous player and the game goes
  on) and 0 after a success, a callback error or an ejection: below 2 in every case.
\<close>

theorem cheat_resets_passCount:
  assumes "\<And>v. passCount (currentGame (snd (callback v))) = passCount (currentGame v)"
  shows "determineCheatSuccess P rng callback so eo (resetPasses w)
           = determineCheatSuccess P rng callback so eo w
       \<and> passCount (currentGame (snd (determineCheatSuccess P rng callback so eo w)))
           = (if \<not> successRoll rng so \<le> cheatSuccessChance P (cheatCount (currentGame w))
                 \<and> \<not> (0 < cheatCount (currentGame w) \<and> ejectRoll rng so eo < 0.1)
              then 1 else 0)
       \<and> passCount (currentGame (snd (determineCheatSuccess P rng callback so eo w))) < 2
       \<and> (\<not> successRoll rng so \<le> cheatSuccessChance P (cheatCount (currentGame w))
            \<and> \<not> (0 < cheatCount (currentGame w) \<and> ejectRoll rng so eo < 0.1)
          \<longrightarrow> previousPlayer (currentGame (snd (determineCheatSuccess P rng callback so eo w)))
                = Some black)"
proof (cases "successRoll rng so \<le> cheatSuccessChance P (cheatCount (currentGame w))")
  case True
  have cb: "passCount (currentGame (snd (callback (resetPasses w)))) = 0"
    using assms [of "resetPasses w"] by simp
  show ?thesis
  proof (cases "callback (resetPasses w)")
    case (Pair r w')
    show ?thesis
    proof (cases r)
      case (Inl e)
      with Pair cb True
        determineCheatSuccess_callback_error
          [where callback = callback and e = e and w' = w' and eo = eo, OF True]
      show ?thesis by (simp add: determineCheatSuccess_resetPasses)
    next
      case (Inr u)
      with Pair cb True
        determineCheatSuccess_success
          [where callback = callback and u = u and w' = w' and eo = eo, OF True]
      show ?thesis by (simp add: determineCheatSuccess_resetPasses emit_def)
    qed
  qed
next
  case False
  show ?thesis
  proof (cases "0 < cheatCount (currentGame w) \<and> ejectRoll rng so eo < 0.1")
    case True
    with False determineCheatSuccess_eject [OF False, where eo = eo and callback = callback]
    show ?thesis
      by (simp add: determineCheatSuccess_resetPasses endGoGame_def logger_def)
  next
    case nej: False
    then have "cheatCount (currentGame w) = 0 \<or> \<not> ejectRoll rng so eo < 0.1" by auto
    from determineCheatSuccess_skip [OF False this, where callback = callback] False nej
    show ?thesis by (simp add: determineCheatSuccess_resetPasses)
  qed
qed

theorem cheat_resets_passCount_witness:
  "passCount (currentGame sampleWorld) = 1
   \<and> determineCheatSuccess samplePlayer sampleRng (removeRouterCallback sampleEngine 0 1)
        None (Some 1) (resetPasses sampleWorld)
      = determineCheatSuccess samplePlayer sampleRng (removeRouterCallback sampleEngine 0 1)
          None (Some 1) sampleWorld
   \<and> passCount (currentGame (snd (determineCheatSuccess samplePlayer sampleRng
        (removeRouterCallback sampleEngine 0 1) None (Some 1) sampleWorld))) = 1
   \<and> passCount (currentGame (snd (determineCheatSuccess samplePlayer sampleRng
        (removeRouterCallback sampleEngine 0 1) (Some 0) None sampleWorld))) = 0
   \<and> previousPlayer (currentGame (snd (determineCheatSuccess samplePlayer sampleRng
        (removeRouterCallback sampleEngine 0 1) None (Some 1) sampleWorld))) = Some black"
proof -
  have e: "\<not> ejectRoll sampleRng None (Some 1) < 0.1"
    by (simp add: ejectRoll_def)
  have s: "successRoll sampleRng (Some 0)
             \<le> cheatSuccessChance samplePlayer (cheatCount (currentGame sampleWorld))"
    by (simp add: successRoll_def sample_rolls(3) cheatSuccessChance_1 del: One_nat_def)
  have p: "passCount (currentGame sampleWorld) = 1"
    by (simp add: sampleWorld_def sampleGame_fields)
  show ?thesis
    using cheat_resets_passCount [of "removeRouterCallback sampleEngine 0 1" samplePlayer
        sampleRng None "Some 1" sampleWorld, OF removeRouterCallback_counters(2)]
      cheat_resets_passCount [of "removeRouterCallback sampleEngine 0 1" samplePlayer
        sampleRng "Some 0" None sampleWorld, OF removeRouterCallback_counters(2)]
      sample_rolls(1) e s p
    by simp
qed

section \<open>Turn validation\<close>

text \<open>
  C5. \<^verbatim>\<open>validateTurn\<close> raises the \<^verbatim>\<open>notYourTurn\<close> error exactly when the previous player
  is black, the \<^verbatim>\<open>gameOver\<close> error exactly when it is null, and no error otherwise, in
  particular when the previous player is white.
\<close>

theorem validateTurn_gate:
  "(validateTurn g ms = Inl (TurnError ms notYourTurn)) = (previousPlayer g = Some black)
   \<and> (validateTurn g ms = Inl (TurnError ms gameOver)) = (previousPlayer g = None)
   \<and> (validateTurn g ms = Inr ())
        = (previousPlayer g \<noteq> Some black \<and> previousPlayer g \<noteq> None)
   \<and> (previousPlayer g = Some white \<longrightarrow> validateTurn g ms = Inr ())"
  by (simp add: validateTurn_def)

theorem validateTurn_gate_witness:
  "previousPlayer sampleGame = Some white
   \<and> validateTurn sampleGame (methodText ''passTurn()'') = Inr ()
   \<and> validateTurn (sampleGame\<lparr>previousPlayer := Some black\<rparr>) (methodText ''passTurn()'')
        = Inl (TurnError (methodText ''passTurn()'') notYourTurn)
   \<and> validateTurn (sampleGame\<lparr>previousPlayer := None\<rparr>) (methodText ''passTurn()'')
        = Inl (TurnError (methodText ''passTurn()'') gameOver)"
  using validateTurn_gate [of sampleGame "methodText ''passTurn()''"]
    validateTurn_gate [of "sampleGame\<lparr>previousPlayer := Some black\<rparr>" "methodText ''passTurn()''"]
    validateTurn_gate [of "sampleGame\<lparr>previousPlayer := None\<rparr>" "methodText ''passTurn()''"]
  by (simp add: sampleGame_fields)

section \<open>Coordinates are checked first\<close>

lemma validateMove_outside:
  assumes "outsideBoard g x y"
  shows "validateMove E g x y methodName check = Inl (coordinateError g x y)"
  using assms by (auto simp add: validateMove_def outsideBoard_def coordinateError_def Let_def)

lemma validateMove_cases:
  obtains e where "validateMove E g x y methodName check = Inl e"
  | "validateMove E g x y methodName check = Inr ()"
  by (cases "validateMove E g x y methodName check") auto

text \<open>
  C6, as amended. With \<open>x\<close> or \<open>y\<close> outside \<open>[0, boardSize)\<close>, \<^verbatim>\<open>validateMove\<close> raises
  the invalid-coordinate error before any other check: whatever the turn, the point, the
  validity and the settings are. Every entry point that places or removes a stone then
  ends in an error with the state as it was. The error is the invalid-coordinate one for
  \<^verbatim>\<open>makeMove\<close>, for the four cheats once their access check has passed (without access it
  is the access error), and for the second point of \<^verbatim>\<open>playTwoMoves\<close> once its first point
  has passed the whole validation (otherwise it is the error of the first point).
\<close>

theorem outside_coordinates_rejected:
  assumes "outsideBoard (currentGame w) x y"
  shows "validateMove E (currentGame w) x y methodName check
           = Inl (coordinateError (currentGame w) x y)
       \<and> NetscriptGo_makeMove E x y w = (Inl (coordinateError (currentGame w) x y), w)
       \<and> (checkCheatApiAccess P = Inr () \<longrightarrow>
            NetscriptGo_removeRouter E P rng x y w
              = (Inl (coordinateError (currentGame w) x y), w)
          \<and> NetscriptGo_repairOfflineNode E P rng x y w
              = (Inl (coordinateError (currentGame w) x y), w)
          \<and> NetscriptGo_destroyNode E P rng x y w
              = (Inl (coordinateError (currentGame w) x y), w)
          \<and> NetscriptGo_playTwoMoves E P rng x y x2 y2 w
              = (Inl (coordinateError (currentGame w) x y), w)
          \<and> (validateMove E (currentGame w) x1 y1 ''playTwoMoves''
                (defaultCheck\<lparr>repeat := False, suicide := False\<rparr>) = Inr ()
              \<longrightarrow> NetscriptGo_playTwoMoves E P rng x1 y1 x y w
                    = (Inl (coordinateError (currentGame w) x y), w))
          \<and> (\<forall>e. validateMove E (currentGame w) x1 y1 ''playTwoMoves''
                (defaultCheck\<lparr>repeat := False, suicide := False\<rparr>) = Inl e
              \<longrightarrow> NetscriptGo_playTwoMoves E P rng x1 y1 x y w = (Inl e, w)))
       \<and> (checkCheatApiAccess P \<noteq> Inr () \<longrightarrow>
            NetscriptGo_removeRouter E P rng x y w = (Inl NoCheatAccess, w)
          \<and> NetscriptGo_repairOfflineNode E P rng x y w = (Inl NoCheatAccess, w)
          \<and> NetscriptGo_destroyNode E P rng x y w = (Inl NoCheatAccess, w)
          \<and> NetscriptGo_playTwoMoves E P rng x y x2 y2 w = (Inl NoCheatAccess, w)
          \<and> NetscriptGo_playTwoMoves E P rng x1 y1 x y w = (Inl NoCheatAccess, w))
       \<and> isl (fst (NetscriptGo_playTwoMoves E P rng x1 y1 x y w))
       \<and> snd (NetscriptGo_playTwoMoves E P rng x1 y1 x y w) = w"
proof -
  note vm = validateMove_outside [OF assms]
  have access: "checkCheatApiAccess P = Inr () \<or> checkCheatApiAccess P = Inl NoCheatAccess"
    by (simp add: checkCheatApiAccess_def Let_def)
  have two: "isl (fst (NetscriptGo_playTwoMoves E P rng x1 y1 x y w))
             \<and> snd (NetscriptGo_playTwoMoves E P rng x1 y1 x y w) = w"
    using access
    by (cases rule: validateMove_cases [of E "currentGame w" x1 y1 "''playTwoMoves''"
          "defaultCheck\<lparr>repeat := False, suicide := False\<rparr>"])
       (auto simp add: NetscriptGo_playTwoMoves_def vm)
  show ?thesis
    using access two
    by (auto simp add: vm NetscriptGo_makeMove_def NetscriptGo_removeRouter_def
        NetscriptGo_repairOfflineNode_def NetscriptGo_destroyNode_def
        NetscriptGo_playTwoMoves_def)
qed

lemma sample_outside: "outsideBoard (currentGame sampleWorld) 2 0"
  by (simp add: outsideBoard_def sampleWorld_def sampleGame_fields)

lemma sample_validate_playTwoMoves:
  "validateMove sampleEngine (currentGame sampleWorld) 0 0 ''playTwoMoves''
     (defaultCheck\<lparr>repeat := False, suicide := False\<rparr>) = Inr ()"
proof -
  have "readPoint (board sampleGame) 0 0 = Inr (samplePoint empty 0 0)"
    by (simp add: readPoint_def sampleGame_def)
  then show ?thesis
    by (simp add: validateMove_def validateTurn_def samplePoint_def defaultCheck_def
        sampleGame_fields sampleWorld_def Let_def)
qed

theorem outside_coordinates_rejected_witness:
  "outsideBoard (currentGame sampleWorld) 2 0
   \<and> NetscriptGo_makeMove sampleEngine 2 0 sampleWorld = (Inl (InvalidColumn 2 2), sampleWorld)
   \<and> NetscriptGo_removeRouter sampleEngine samplePlayer sampleRng 2 0 sampleWorld
       = (Inl (InvalidColumn 2 2), sampleWorld)
   \<and> NetscriptGo_playTwoMoves sampleEngine samplePlayer sampleRng 0 0 2 0 sampleWorld
       = (Inl (InvalidColumn 2 2), sampleWorld)"
proof -
  have c: "coordinateError (currentGame sampleWorld) 2 0 = InvalidColumn 2 2"
    by (simp add: coordinateError_def sampleWorld_def sampleGame_fields)
  show ?thesis
    using outside_coordinates_rejected [OF sample_outside, of sampleEngine "''makeMove''"
        defaultCheck samplePlayer sampleRng 0 0 0 0]
      sample_outside sample_access sample_validate_playTwoMoves c
    by simp
qed

text \<open>
  Two calls with a point outside the 2 x 2 sample board that end in another error than
  the invalid-coordinate one: \<^verbatim>\<open>destroyNode\<close> for a player without Source-File 14, which
  stops at the access check, and \<^verbatim>\<open>playTwoMoves\<close> on a finished game with its second
  point outside, which stops at the turn check of its first point.
\<close>

theorem outside_coordinates_other_error:
  "outsideBoard (currentGame sampleWorld) 2 0
   \<and> NetscriptGo_destroyNode sampleEngine (samplePlayer\<lparr>sourceFileLvl14 := 0\<rparr>) sampleRng 2 0
        sampleWorld
       = (Inl NoCheatAccess, sampleWorld)
   \<and> NetscriptGo_playTwoMoves sampleEngine samplePlayer sampleRng 0 0 2 0
        (sampleWorld\<lparr>currentGame := sampleGame\<lparr>previousPlayer := None\<rparr>\<rparr>)
       = (Inl (TurnError (moveAt ''playTwoMoves'' 0 0) gameOver),
          sampleWorld\<lparr>currentGame := sampleGame\<lparr>previousPlayer := None\<rparr>\<rparr>)"
proof -
  have a: "checkCheatApiAccess (samplePlayer\<lparr>sourceFileLvl14 := 0\<rparr>) = Inl NoCheatAccess"
    by (simp add: checkCheatApiAccess_def samplePlayer_def)
  have l: "length (board (sampleGame\<lparr>previousPlayer := None\<rparr>)) = 2"
    by (simp add: sampleGame_fields)
  have v: "validateMove sampleEngine (sampleGame\<lparr>previousPlayer := None\<rparr>) 0 0 ''playTwoMoves''
             (defaultCheck\<lparr>repeat := False, suicide := False\<rparr>)
           = Inl (TurnError (moveAt ''playTwoMoves'' 0 0) gameOver)"
    unfolding validateMove_def l by (simp add: validateTurn_def)
  show ?thesis
    using sample_outside
    by (simp add: NetscriptGo_destroyNode_def NetscriptGo_playTwoMoves_def a v sample_access)
qed

section \<open>The player's move and the reset\<close>

lemma makeMove_refused:
  assumes "evaluateIfMoveIsValid E g x y player \<noteq> valid \<or> \<not> fst (makeMove E g x y player)"
  shows "makeMove E g x y player = (False, g)"
  using assms by (auto simp add: makeMove_def)

text \<open>
  C4. \<^verbatim>\<open>makePlayerMove\<close> at \<open>(x, y)\<close>: when the validity is not \<^verbatim>\<open>valid\<close> or \<^verbatim>\<open>makeMove\<close>
  returns false, the error naming \<open>x\<close>, \<open>y\<close> and the validity is raised and the state is
  the one before the call: nothing emitted, nothing logged, the game as it was. Otherwise
  the game is the one \<^verbatim>\<open>makeMove\<close> leaves, one notification is emitted, the move is
  logged and the opponent's move is requested.
\<close>

theorem makePlayerMove_outcome:
  "(evaluateIfMoveIsValid E (currentGame w) x y black \<noteq> valid
      \<or> \<not> fst (makeMove E (currentGame w) x y black)
    \<longrightarrow> makePlayerMove E x y w
          = (Inl (InvalidMove x y (evaluateIfMoveIsValid E (currentGame w) x y black)), w))
   \<and> (\<not> (evaluateIfMoveIsValid E (currentGame w) x y black \<noteq> valid
           \<or> \<not> fst (makeMove E (currentGame w) x y black))
      \<longrightarrow> makePlayerMove E x y w
            = (Inr aiMove,
               w\<lparr>currentGame := snd (makeMove E (currentGame w) x y black),
                 emitted := emitted w + 1,
                 logs := logs w @ [MovePlayed x y]\<rparr>)
          \<and> previousPlayer (currentGame (snd (makePlayerMove E x y w))) = Some black
          \<and> passCount (currentGame (snd (makePlayerMove E x y w))) = 0)"
proof (cases "evaluateIfMoveIsValid E (currentGame w) x y black \<noteq> valid
                \<or> \<not> fst (makeMove E (currentGame w) x y black)")
  case True
  from makeMove_refused [OF True] True show ?thesis
    by (simp add: makePlayerMove_def Let_def)
next
  case False
  then have v: "evaluateIfMoveIsValid E (currentGame w) x y black = valid" by simp
  show ?thesis
    using False by (simp add: makePlayerMove_def makeMove_def v Let_def emit_def logger_def)
qed

lemma sample_evaluate_0_0: "evaluateIfMoveIsValid sampleEngine sampleGame 0 0 black = valid"
proof -
  have "readPoint (board sampleGame) 0 0 = Inr (samplePoint empty 0 0)"
    by (simp add: readPoint_def sampleGame_def)
  then show ?thesis
    by (simp add: sampleEngine_def sampleEvaluate_def sampleGame_fields samplePoint_def)
qed

lemma sample_evaluate_0_1:
  "evaluateIfMoveIsValid sampleEngine sampleGame 0 1 black = pointNotEmpty"
  by (simp add: sampleEngine_def sampleEvaluate_def sampleGame_fields samplePoint_def
      sample_readPoint_0_1)

theorem makePlayerMove_outcome_witness:
  "evaluateIfMoveIsValid sampleEngine (currentGame sampleWorld) 0 1 black \<noteq> valid
   \<and> makePlayerMove sampleEngine 0 1 sampleWorld = (Inl (InvalidMove 0 1 pointNotEmpty), sampleWorld)
   \<and> fst (makePlayerMove sampleEngine 0 0 sampleWorld) = Inr aiMove
   \<and> emitted (snd (makePlayerMove sampleEngine 0 0 sampleWorld)) = 1
   \<and> previousPlayer (currentGame (snd (makePlayerMove sampleEngine 0 0 sampleWorld)))
       = Some black"
proof -
  have g: "currentGame sampleWorld = sampleGame" "emitted sampleWorld = 0"
    by (simp_all add: sampleWorld_def)
  have m: "fst (makeMove sampleEngine sampleGame 0 0 black)"
    by (simp add: makeMove_def sample_evaluate_0_0)
  show ?thesis
    using makePlayerMove_outcome [of sampleEngine sampleWorld 0 1]
      makePlayerMove_outcome [of sampleEngine sampleWorld 0 0]
      sample_evaluate_0_0 sample_evaluate_0_1 m
    by (simp add: g makeMove_def)
qed

text \<open>
  C7. \<^verbatim>\<open>resetBoardState\<close>: a size outside 5, 7, 9, 13 for an opponent other than
  \<^verbatim>\<open>w0r1d_d43m0n\<close> raises the size error, \<^verbatim>\<open>w0r1d_d43m0n\<close> without The Red Pill raises the
  opponent error, and in both cases the state is the one before the call, the old game
  included. Otherwise the current game is \<^verbatim>\<open>getNewBoardState(boardSize, opponent, true)\<close>,
  one notification is emitted, the new game is logged and its board is returned.
\<close>

theorem resetBoardState_outcome:
  "(boardSize \<notin> {5, 7, 9, 13} \<and> opponent \<noteq> w0r1d_d43m0n
      \<longrightarrow> resetBoardState E P opponent boardSize w = (Inl (InvalidSize boardSize), w))
   \<and> (opponent = w0r1d_d43m0n \<and> \<not> hasTheRedPill P
      \<longrightarrow> resetBoardState E P opponent boardSize w = (Inl (InvalidOpponent opponent), w))
   \<and> (\<not> (boardSize \<notin> {5, 7, 9, 13} \<and> opponent \<noteq> w0r1d_d43m0n)
        \<and> \<not> (opponent = w0r1d_d43m0n \<and> \<not> hasTheRedPill P)
      \<longrightarrow> fst (resetBoardState E P opponent boardSize w)
            = Inr (simpleBoardFromBoard E (board (getNewBoardState E boardSize opponent True)))
          \<and> currentGame (snd (resetBoardState E P opponent boardSize w))
            = getNewBoardState E boardSize opponent True
          \<and> emitted (snd (resetBoardState E P opponent boardSize w)) = emitted w + 1
          \<and> logs (snd (resetBoardState E P opponent boardSize w))
            = logs w @ [NewGameStarted opponent boardSize])"
  by (simp add: resetBoardState_def Let_def emit_def logger_def)

theorem resetBoardState_outcome_witness:
  "resetBoardState sampleEngine samplePlayer (faction ''Netburners'') 6 sampleWorld
     = (Inl (InvalidSize 6), sampleWorld)
   \<and> resetBoardState sampleEngine samplePlayer w0r1d_d43m0n 19 sampleWorld
     = (Inl (InvalidOpponent w0r1d_d43m0n), sampleWorld)
   \<and> currentGame (snd (resetBoardState sampleEngine samplePlayer (faction ''Netburners'') 5
        sampleWorld))
     = getNewBoardState sampleEngine 5 (faction ''Netburners'') True
   \<and> emitted (snd (resetBoardState sampleEngine samplePlayer (faction ''Netburners'') 5
        sampleWorld)) = 1"
proof -
  have p: "\<not> hasTheRedPill samplePlayer" by (simp add: samplePlayer_def)
  have e: "emitted sampleWorld = 0" by (simp add: sampleWorld_def)
  show ?thesis
    using resetBoardState_outcome [of 6 "faction ''Netburners''" sampleEngine samplePlayer
        sampleWorld]
      resetBoardState_outcome [of 19 w0r1d_d43m0n sampleEngine samplePlayer sampleWorld]
      resetBoardState_outcome [of 5 "faction ''Netburners''" sampleEngine samplePlayer
        sampleWorld]
      p e
    by simp
qed

section \<open>The grid of valid moves\<close>

lemma foldl_push:
  "foldl (\<lambda>acc (y, point). acc @ [f y]) acc (enumerate n column)
     = acc @ map f [n..<n + length column]"
proof (induction column arbitrary: acc n)
  case Nil
  then show ?case by simp
next
  case (Cons p column)
  have "[n..<n + length (p # column)] = n # [Suc n..<Suc n + length column]"
    by (simp add: upt_rec)
  with Cons show ?case by simp
qed

lemma columnValidity_eq:
  "columnValidity E g x column
     = map (\<lambda>y. evaluateIfMoveIsValid E g (int x) (int y) black = valid) [0..<length column]"
  using foldl_push [of "\<lambda>y. evaluateIfMoveIsValid E g (int x) (int y) black = valid" "[]" 0 column]
  by (simp add: columnValidity_def)

text \<open>
  C10. The grid \<^verbatim>\<open>getValidMoves\<close> returns has one column for each column of the board,
  each as long as the board's; its entry at \<open>(x, y)\<close> is true exactly when
  \<^verbatim>\<open>evaluateIfMoveIsValid\<close> on the current game at \<open>(x, y)\<close> for black returns \<^verbatim>\<open>valid\<close>;
  and the state after the call is the state before it.
\<close>

theorem getValidMoves_grid:
  "length (fst (getValidMoves E w)) = length (board (currentGame w))
   \<and> (\<forall>x < length (board (currentGame w)).
        length (fst (getValidMoves E w) ! x) = length (board (currentGame w) ! x)
        \<and> (\<forall>y < length (board (currentGame w) ! x).
             fst (getValidMoves E w) ! x ! y
               = (evaluateIfMoveIsValid E (currentGame w) (int x) (int y) black = valid)))
   \<and> snd (getValidMoves E w) = w"
  by (simp add: getValidMoves_def Let_def columnValidity_eq nth_enumerate_eq)

theorem getValidMoves_grid_witness:
  "length (fst (getValidMoves sampleEngine sampleWorld)) = 2
   \<and> length (fst (getValidMoves sampleEngine sampleWorld) ! 0) = 2
   \<and> fst (getValidMoves sampleEngine sampleWorld) ! 0 ! 0
   \<and> \<not> fst (getValidMoves sampleEngine sampleWorld) ! 0 ! 1
   \<and> snd (getValidMoves sampleEngine sampleWorld) = sampleWorld"
proof -
  have g: "currentGame sampleWorld = sampleGame" by (simp add: sampleWorld_def)
  have c: "length (board sampleGame ! 0) = 2" by (simp add: sampleGame_def)
  have "(0::nat) < length (board (currentGame sampleWorld))"
    by (simp add: g sampleGame_fields)
  with getValidMoves_grid [of sampleEngine sampleWorld]
  have "length (fst (getValidMoves sampleEngine sampleWorld)) = 2
        \<and> length (fst (getValidMoves sampleEngine sampleWorld) ! 0) = 2
        \<and> (\<forall>y<2. fst (getValidMoves sampleEngine sampleWorld) ! 0 ! y
                    = (evaluateIfMoveIsValid sampleEngine sampleGame 0 (int y) black = valid))
        \<and> snd (getValidMoves sampleEngine sampleWorld) = sampleWorld"
    by (simp add: g c sampleGame_fields)
  moreover have "(0::nat) < 2" and "(1::nat) < 2" by simp_all
  ultimately show ?thesis
    using sample_evaluate_0_0 sample_evaluate_0_1 by (metis GoValidity.distinct(3) of_nat_0 of_nat_1)
qed

section \<open>A reset while the opponent's move is pending\<close>

lemma applyAt_elsewhere:
  assumes "r \<noteq> target p"
  shows "games (applyAt E p h) ! r = games h ! r"
    and "currentRef (applyAt E p h) = currentRef h"
  using assms by (simp_all add: applyAt_def)

text \<open>
  C8. An opponent's move requested for the game that was current before a reset
  targets the old game object. After the reset the current game is a new object, so
  the resolution of the pending move is discarded: the store, and with it the board
  of the game started by the reset, is what the reset left. Even the bare application
  of the move to its target leaves the new current game alone. Without a reset in
  between, the same move is applied to the current game.
\<close>

theorem stale_move_discarded:
  assumes "currentRef h < length (games h)"
  shows "resolveAIMove E (pendingFor h pl) (resetState E n opponent h) = resetState E n opponent h
       \<and> games (resetState E n opponent h) ! currentRef (resetState E n opponent h)
           = getNewBoardState E n opponent True
       \<and> games (applyAt E (pendingFor h pl) (resetState E n opponent h))
             ! currentRef (resetState E n opponent h)
           = getNewBoardState E n opponent True
       \<and> resolveAIMove E (pendingFor h pl) h
           = h\<lparr>games := (games h)[currentRef h := applyPlay E pl (games h ! currentRef h)]\<rparr>"
proof -
  have ne: "target (pendingFor h pl) \<noteq> currentRef (resetState E n opponent h)"
    using assms by (simp add: pendingFor_def resetState_def)
  have new: "games (resetState E n opponent h) ! currentRef (resetState E n opponent h)
               = getNewBoardState E n opponent True"
    by (simp add: resetState_def)
  have "resolveAIMove E (pendingFor h pl) (resetState E n opponent h) = resetState E n opponent h"
    using ne by (simp add: resolveAIMove_def)
  moreover have "games (applyAt E (pendingFor h pl) (resetState E n opponent h))
                     ! currentRef (resetState E n opponent h)
                   = getNewBoardState E n opponent True"
    using applyAt_elsewhere(1) [of "currentRef (resetState E n opponent h)" "pendingFor h pl"]
      ne new by simp
  moreover have "resolveAIMove E (pendingFor h pl) h
                   = h\<lparr>games := (games h)[currentRef h := applyPlay E pl (games h ! currentRef h)]\<rparr>"
    using assms by (simp add: resolveAIMove_def applyAt_def pendingFor_def)
  ultimately show ?thesis using new by simp
qed

theorem stale_move_discarded_witness:
  "currentRef sampleStore < length (games sampleStore)
   \<and> resolveAIMove sampleEngine (pendingFor sampleStore (playMove 0 0))
        (resetState sampleEngine 5 (faction ''Netburners'') sampleStore)
       = resetState sampleEngine 5 (faction ''Netburners'') sampleStore
   \<and> color (the (board (games (resolveAIMove sampleEngine (pendingFor sampleStore (playMove 0 0))
        sampleStore) ! 0) ! 0 ! 0)) = white"
proof -
  have wf: "currentRef sampleStore < length (games sampleStore)"
    by (simp add: sampleStore_def)
  have s: "games sampleStore ! currentRef sampleStore = sampleGame"
    "currentRef sampleStore = 0" "games sampleStore = [sampleGame]"
    by (simp_all add: sampleStore_def)
  have v: "evaluateIfMoveIsValid sampleEngine sampleGame 0 0 white = valid"
  proof -
    have "readPoint (board sampleGame) 0 0 = Inr (samplePoint empty 0 0)"
      by (simp add: readPoint_def sampleGame_def)
    then show ?thesis
      by (simp add: sampleEngine_def sampleEvaluate_def sampleGame_fields samplePoint_def)
  qed
  have u: "updateCaptures sampleEngine = (\<lambda>b c. b)"
    by (simp add: sampleEngine_def)
  have ps: "placeStone (board sampleGame) 0 0 white
              = [[samplePoint white 0 0, samplePoint black 0 1], [None, samplePoint white 1 1]]"
    by (simp add: placeStone_def setColor_def readPoint_def writePoint_def sampleGame_def
        samplePoint_def)
  have b: "board (applyPlay sampleEngine (playMove 0 0) sampleGame)
             = [[samplePoint white 0 0, samplePoint black 0 1], [None, samplePoint white 1 1]]"
    by (simp add: applyPlay_def makeMove_def v u ps)
  show ?thesis
    using stale_move_discarded [OF wf, of sampleEngine "playMove 0 0" 5 "faction ''Netburners''"]
      wf
    by (simp add: s b samplePoint_def)
qed

end
